theory Spec2Isabelle
  imports Complex_Main "HOL-Library.Word"
begin

section \<open>Python values, exceptions and external calls\<close>

text \<open>
  The module \<^verbatim>\<open>routellm/routers/routers.py\<close> is embedded function by function.
  A finite float is identified with the real number it stands for, and rounding inside
  the finite range is not modelled: a real-valued definition gives the formula that the
  code computes, not the last bits of its result. The floats of \<open>get_weightings\<close> are of
  the type \<open>npfloat\<close> below, which has the infinities, the two zeros and not-a-number,
  overflow to an infinity and underflow to zero. An exception is a value of type \<open>error\<close>; a call that can have an
  effect takes the state of the world and returns the new one together with its result.
\<close>

type_synonym prompt = string

text \<open>A cell of the columns \<^verbatim>\<open>model_a\<close>, \<^verbatim>\<open>model_b\<close>: a model name (str) or a tier (int).\<close>

datatype ident = ModelName string | TierId int

datatype error =
    FileNotFoundError string
  | ValueError string
  | KeyError ident
  | IndexError
  | EOFError
  | External string

text \<open>
  \<open>External name\<close> is an exception raised inside the collaborator \<open>name\<close>, whose code is
  not part of the module (the classifier, the embedding provider, the rating fit).
\<close>

text \<open>
  \<open>counted f\<close> is the collaborator \<open>f\<close> with a counter of its invocations next to
  its own state.
\<close>

definition counted :: "('a \<Rightarrow> 'w \<Rightarrow> 'r \<times> 'w) \<Rightarrow> 'a \<Rightarrow> 'w \<times> nat \<Rightarrow> 'r \<times> ('w \<times> nat)" where
  "counted f x = (\<lambda>(w, n). case f x w of (r, w') \<Rightarrow> (r, (w', Suc n)))"

section \<open>Router\<close>

text \<open>
  \<^verbatim>\<open>ROUTED_PAIR\<close> comes from \<^verbatim>\<open>routellm.model_pair\<close>; it is a parameter of \<open>route\<close>.
\<close>

record model_pair =
  strong :: string
  weak :: string

text \<open>
  \<^verbatim>\<open>
  def route(self, prompt, threshold):
      if self.calculate_strong_win_rate(prompt) >= threshold:
          return ROUTED_PAIR.strong
      else:
          return ROUTED_PAIR.weak
  \<close>
  The abstract method is the parameter \<open>calculate_strong_win_rate\<close>; an exception it
  raises leaves \<open>route\<close> unhandled.
\<close>

definition route ::
  "model_pair \<Rightarrow> (prompt \<Rightarrow> 'w \<Rightarrow> (error + real) \<times> 'w) \<Rightarrow> prompt \<Rightarrow> real \<Rightarrow> 'w
     \<Rightarrow> (error + string) \<times> 'w" where
  "route ROUTED_PAIR calculate_strong_win_rate prompt threshold w =
     (case calculate_strong_win_rate prompt w of
        (Inl e, w') \<Rightarrow> (Inl e, w')
      | (Inr rate, w') \<Rightarrow>
          if rate \<ge> threshold then (Inr (strong ROUTED_PAIR), w')
          else (Inr (weak ROUTED_PAIR), w'))"

section \<open>Parallel-safety flags and the registry\<close>

text \<open>
  A class is represented by its class attributes. \<^verbatim>\<open>Router\<close> sets
  \<^verbatim>\<open>NO_PARALLEL = False\<close>; a inherit inherits it; the decorator
  \<^verbatim>\<open>no_parallel\<close> sets it to \<^verbatim>\<open>True\<close> on the decorated class.
\<close>

record router_class =
  cls_name :: string
  NO_PARALLEL :: bool

definition Router :: router_class where
  "Router = \<lparr>cls_name = ''Router'', NO_PARALLEL = False\<rparr>"

definition inherit :: "string \<Rightarrow> router_class \<Rightarrow> router_class" where
  "inherit name base = base\<lparr>cls_name := name\<rparr>"

definition no_parallel :: "router_class \<Rightarrow> router_class" where
  "no_parallel cls = cls\<lparr>NO_PARALLEL := True\<rparr>"

definition CausalLLMRouter :: router_class where
  "CausalLLMRouter = no_parallel (inherit ''CausalLLMRouter'' Router)"

definition BERTRouter :: router_class where
  "BERTRouter = no_parallel (inherit ''BERTRouter'' Router)"

definition SWRankingRouter :: router_class where
  "SWRankingRouter = inherit ''SWRankingRouter'' Router"

definition MatrixFactorizationRouter :: router_class where
  "MatrixFactorizationRouter = no_parallel (inherit ''MatrixFactorizationRouter'' Router)"

definition RandomRouter :: router_class where
  "RandomRouter = no_parallel (inherit ''RandomRouter'' Router)"

definition ROUTER_CLS :: "(string \<times> router_class) list" where
  "ROUTER_CLS =
     [(''random'', RandomRouter),
      (''matrix_factorization'', MatrixFactorizationRouter),
      (''causal_llm'', CausalLLMRouter),
      (''bert'', BERTRouter),
      (''sw_ranking'', SWRankingRouter)]"

section \<open>numpy floats\<close>

text \<open>
  A float64 of a numpy array. \<open>Fin r\<close> is the finite float of value \<open>r\<close>, \<open>Fin 0\<close> being
  \<open>+0.0\<close>; \<open>NegZero\<close> is \<open>-0.0\<close>. numpy does not raise on a division by zero or on an
  overflow: it returns not-a-number, an infinity or a zero.
\<close>

datatype npfloat = Fin real | NegZero | PInf | NInf | NaN

fun fval :: "npfloat \<Rightarrow> real" where
  "fval (Fin r) = r"
| "fval _ = 0"


fun is_zero :: "npfloat \<Rightarrow> bool" where
  "is_zero (Fin r) = (r = 0)"
| "is_zero NegZero = True"
| "is_zero _ = False"

fun is_inf :: "npfloat \<Rightarrow> bool" where
  "is_inf PInf = True"
| "is_inf NInf = True"
| "is_inf _ = False"

fun signbit :: "npfloat \<Rightarrow> bool" where
  "signbit (Fin r) = (r < 0)"
| "signbit NegZero = True"
| "signbit NInf = True"
| "signbit _ = False"

definition signed_zero :: "bool \<Rightarrow> npfloat" where
  "signed_zero negative = (if negative then NegZero else Fin 0)"

definition signed_inf :: "bool \<Rightarrow> npfloat" where
  "signed_inf negative = (if negative then NInf else PInf)"

text \<open>
  The float of an exact result \<open>q\<close>: an infinity from \<open>2^1024\<close> on, a zero up to half the
  smallest subnormal \<open>2^-1074\<close>, both with the sign of \<open>q\<close>, and \<open>q\<close> itself in between.
\<close>

definition overflow_bound :: real where
  "overflow_bound = 2 ^ 1024"

definition underflow_bound :: real where
  "underflow_bound = 1 / 2 ^ 1075"

definition float_of_real :: "real \<Rightarrow> npfloat" where
  "float_of_real q =
     (if overflow_bound \<le> \<bar>q\<bar> then signed_inf (q < 0)
      else if \<bar>q\<bar> \<le> underflow_bound then signed_zero (q < 0)
      else Fin q)"

text \<open>
  \<^verbatim>\<open>x / y\<close>: not-a-number for \<open>0 / 0\<close> and \<open>inf / inf\<close>, an infinity for a division of a
  nonzero number by a zero, the sign being the product of the signs.
\<close>

definition np_divide :: "npfloat \<Rightarrow> npfloat \<Rightarrow> npfloat" where
  "np_divide x y =
     (if x = NaN \<or> y = NaN then NaN
      else if is_inf x then (if is_inf y then NaN else signed_inf (signbit x \<noteq> signbit y))
      else if is_inf y then signed_zero (signbit x \<noteq> signbit y)
      else if is_zero y then (if is_zero x then NaN else signed_inf (signbit x \<noteq> signbit y))
      else if is_zero x then signed_zero (signbit x \<noteq> signbit y)
      else float_of_real (fval x / fval y))"

text \<open>\<^verbatim>\<open>a / b\<close> on two finite floats given by their values.\<close>

definition true_divide :: "real \<Rightarrow> real \<Rightarrow> npfloat" where
  "true_divide a b = np_divide (Fin a) (Fin b)"

text \<open>\<^verbatim>\<open>10 ** x\<close> and \<^verbatim>\<open>10 * x\<close> on a float.\<close>

fun pow10 :: "npfloat \<Rightarrow> npfloat" where
  "pow10 (Fin x) = float_of_real (10 powr x)"
| "pow10 NegZero = Fin 1"
| "pow10 PInf = PInf"
| "pow10 NInf = Fin 0"
| "pow10 NaN = NaN"

fun times10 :: "npfloat \<Rightarrow> npfloat" where
  "times10 (Fin x) = float_of_real (10 * x)"
| "times10 NegZero = NegZero"
| "times10 PInf = PInf"
| "times10 NInf = NInf"
| "times10 NaN = NaN"

text \<open>
  \<^verbatim>\<open>x >= y\<close> on floats, false when one of them is not-a-number, and \<^verbatim>\<open>np.maximum\<close>: the
  first argument when it is not-a-number or at least the second, the second otherwise.
\<close>

fun np_ge :: "npfloat \<Rightarrow> npfloat \<Rightarrow> bool" where
  "np_ge NaN _ = False"
| "np_ge _ NaN = False"
| "np_ge PInf _ = True"
| "np_ge _ NInf = True"
| "np_ge NInf _ = False"
| "np_ge _ PInf = False"
| "np_ge x y = (fval y \<le> fval x)"

definition np_maximum :: "npfloat \<Rightarrow> npfloat \<Rightarrow> npfloat" where
  "np_maximum x y = (if np_ge x y \<or> x = NaN then x else y)"

text \<open>\<^verbatim>\<open>np.max\<close> of a one-dimensional array; it raises on an empty one.\<close>

definition np_max :: "npfloat list \<Rightarrow> error + npfloat" where
  "np_max xs =
     (case xs of
        [] \<Rightarrow> Inl (ValueError ''zero-size array to reduction operation maximum which has no identity'')
      | x # rest \<Rightarrow> Inr (foldl np_maximum x rest))"


section \<open>BERTRouter\<close>

text \<open>
  \<^verbatim>\<open>
  def calculate_strong_win_rate(self, prompt):
      inputs = self.tokenizer(prompt, return_tensors="pt", padding=True, truncation=True)
      with torch.no_grad():
          outputs = self.model(**inputs)
          logits = outputs.logits.numpy()[0]
      exp_scores = np.exp(logits - np.max(logits))
      softmax_scores = exp_scores / np.sum(exp_scores)
      binary_prob = np.sum(softmax_scores[-2:])
      return 1 - binary_prob
  \<close>
  The tokenizer and the classifier are parameters. \<open>model inputs w\<close> is the call
  \<^verbatim>\<open>self.model(**inputs)\<close> followed by \<^verbatim>\<open>.logits.numpy()[0]\<close>: the logits of the one
  prompt, or \<open>None\<close> when the classifier raises. \<^verbatim>\<open>xs[-2:]\<close> is the last two elements
  of \<open>xs\<close>, or all of \<open>xs\<close> when it has fewer. The code computes in float32; the
  definition is over the reals and gives the formula computed, from which the result of
  the code differs by rounding: a rounded sum of two softmax values can exceed one, and
  the result of the code can then be below zero.
\<close>

definition BERTRouter_calculate_strong_win_rate ::
  "(prompt \<Rightarrow> 'tok) \<Rightarrow> ('tok \<Rightarrow> 'w \<Rightarrow> real list option \<times> 'w) \<Rightarrow> prompt \<Rightarrow> 'w
     \<Rightarrow> (error + real) \<times> 'w" where
  "BERTRouter_calculate_strong_win_rate tokenizer model prompt w =
     (let inputs = tokenizer prompt in
      case model inputs w of
        (None, w') \<Rightarrow> (Inl (External ''model''), w')
      | (Some logits, w') \<Rightarrow>
          if logits = []
          then (Inl (ValueError ''zero-size array to reduction operation maximum which has no identity''), w')
          else
            let exp_scores = map (\<lambda>l. exp (l - Max (set logits))) logits;
                softmax_scores = map (\<lambda>e. e / sum_list exp_scores) exp_scores;
                binary_prob = sum_list (drop (length softmax_scores - 2) softmax_scores)
            in (Inr (1 - binary_prob), w'))"

text \<open>
  The softmax as the specification has it, a probability vector:
  \<open>softmax xs ! i = exp (xs ! i) / (\<Sum>j. exp (xs ! j))\<close>.
\<close>

definition softmax :: "real list \<Rightarrow> real list" where
  "softmax xs = map (\<lambda>x. exp x / (\<Sum>y\<leftarrow>xs. exp y)) xs"

section \<open>RandomRouter\<close>

text \<open>
  \<^verbatim>\<open>
  def calculate_strong_win_rate(self, prompt):
      del prompt
      return random.uniform(0, 1)
  \<close>
  \<^verbatim>\<open>random.uniform(a, b)\<close> is \<^verbatim>\<open>a + (b - a) * random()\<close>, and \<^verbatim>\<open>random()\<close> draws 53
  random bits \<open>k\<close> from the global generator and returns \<open>k / 2^53\<close>. The generator is the
  parameter \<open>random\<close>, from its state to the bits and the next state.
\<close>

definition random_uniform :: "('g \<Rightarrow> 53 word \<times> 'g) \<Rightarrow> real \<Rightarrow> real \<Rightarrow> 'g \<Rightarrow> real \<times> 'g" where
  "random_uniform random a b g =
     (case random g of (k, g') \<Rightarrow> (a + (b - a) * (real (unat k) / 2 ^ 53), g'))"

definition RandomRouter_calculate_strong_win_rate ::
  "('g \<Rightarrow> 53 word \<times> 'g) \<Rightarrow> prompt \<Rightarrow> 'g \<Rightarrow> (error + real) \<times> 'g" where
  "RandomRouter_calculate_strong_win_rate random prompt g =
     (case random_uniform random 0 1 g of (x, g') \<Rightarrow> (Inr x, g'))"

section \<open>SWRankingRouter\<close>

subsection \<open>Data\<close>

text \<open>
  A row of the battle dataset. The module reads and writes the columns
  \<^verbatim>\<open>model_a\<close> and \<^verbatim>\<open>model_b\<close> only.
\<close>

record battle =
  model_a :: ident
  model_b :: ident
  winner :: string

text \<open>The fields that \<^verbatim>\<open>__init__\<close> sets on \<^verbatim>\<open>self\<close>.\<close>

record sw_router =
  strong_model :: string
  weak_model :: string
  arena_df :: "battle list"
  arena_conv_embedding :: "real list list"
  embedding_model :: string
  model2tier :: "ident \<rightharpoonup> int"

text \<open>A dictionary or Series lookup \<^verbatim>\<open>m[k]\<close>.\<close>

definition getitem :: "(ident \<rightharpoonup> 'v) \<Rightarrow> ident \<Rightarrow> error + 'v" where
  "getitem m k = (case m k of None \<Rightarrow> Inl (KeyError k) | Some v \<Rightarrow> Inr v)"

subsection \<open>Construction\<close>

text \<open>
  The file system maps a path to the contents of the file there. Every call of a loader
  is recorded in a log of events.
\<close>

type_synonym path = string
type_synonym filesystem = "path \<rightharpoonup> string"

datatype io_event = ReadJson path bool | NpLoad path

definition endswith :: "string \<Rightarrow> string \<Rightarrow> bool" where
  "endswith s suffix =
     (length suffix \<le> length s \<and> drop (length s - length suffix) s = suffix)"

text \<open>
  \<^verbatim>\<open>pd.read_json(path, lines=...)\<close>. With a file at the path, its contents are parsed.
  What happens to a string that names no file depends on the installed pandas: either it
  is taken for a path, and FileNotFoundError is raised, or it is taken for literal JSON
  and parsed itself (some versions take a string ending in \<open>.json\<close> for a path and any
  other for literal JSON; later ones take every string for a path). The parameter
  \<open>takes_for_path\<close> is that choice, and the parser is a parameter.
\<close>

definition pd_read_json ::
  "(path \<Rightarrow> bool) \<Rightarrow> (bool \<Rightarrow> string \<Rightarrow> battle list option) \<Rightarrow> filesystem \<Rightarrow> path \<Rightarrow> bool
     \<Rightarrow> error + battle list" where
  "pd_read_json takes_for_path parse_json fs p lines =
     (case fs p of
        Some content \<Rightarrow>
          (case parse_json lines content of
             None \<Rightarrow> Inl (ValueError ''Expected object or value'')
           | Some df \<Rightarrow> Inr df)
      | None \<Rightarrow>
          if takes_for_path p
          then Inl (FileNotFoundError (''File '' @ p @ '' does not exist''))
          else
            (case parse_json lines p of
               None \<Rightarrow> Inl (ValueError ''Expected object or value'')
             | Some df \<Rightarrow> Inr df))"

text \<open>
  \<^verbatim>\<open>np.load(path)\<close> opens the file: FileNotFoundError when there is none, EOFError when it
  is empty, and the parser's error when the contents do not parse.
\<close>

definition np_load ::
  "(string \<Rightarrow> real list list option) \<Rightarrow> filesystem \<Rightarrow> path \<Rightarrow> error + real list list" where
  "np_load parse_npy fs p =
     (case fs p of
        None \<Rightarrow> Inl (FileNotFoundError (''[Errno 2] No such file or directory: '' @ p))
      | Some content \<Rightarrow>
          if content = [] then Inl EOFError
          else
            (case parse_npy content of
               None \<Rightarrow> Inl (ValueError ''Cannot load file'')
             | Some a \<Rightarrow> Inr a))"

text \<open>\<^verbatim>\<open>column.apply(f)\<close>: \<open>f\<close> on every cell, top to bottom, stopping at the first exception.\<close>

fun apply_col :: "(ident \<Rightarrow> error + ident) \<Rightarrow> ident list \<Rightarrow> error + ident list" where
  "apply_col f [] = Inr []"
| "apply_col f (x # xs) =
     (case f x of
        Inl e \<Rightarrow> Inl e
      | Inr y \<Rightarrow> (case apply_col f xs of Inl e \<Rightarrow> Inl e | Inr ys \<Rightarrow> Inr (y # ys)))"

text \<open>\<^verbatim>\<open>lambda x: self.model2tier[x]\<close>\<close>

definition tier_of :: "(ident \<rightharpoonup> int) \<Rightarrow> ident \<Rightarrow> error + ident" where
  "tier_of m x = (case getitem m x of Inl e \<Rightarrow> Inl e | Inr t \<Rightarrow> Inr (TierId t))"

text \<open>
  \<^verbatim>\<open>
  model_ratings = sw_utils.compute_elo_mle_with_tie(self.arena_df)
  self.model2tier = sw_utils.compute_tiers(model_ratings, num_tiers=num_tiers)
  self.arena_df["model_a"] = self.arena_df["model_a"].apply(lambda x: self.model2tier[x])
  self.arena_df["model_b"] = self.arena_df["model_b"].apply(lambda x: self.model2tier[x])
  \<close>
  The two functions of \<^verbatim>\<open>sw_utils\<close> are parameters: the rating fit, a function of the
  rows and of the optional sample weights, and the tier assignment; \<open>None\<close> is an
  exception raised inside them.
\<close>

definition fit_and_relabel ::
  "(battle list \<Rightarrow> npfloat list option \<Rightarrow> (ident \<rightharpoonup> real) option)
     \<Rightarrow> ((ident \<rightharpoonup> real) \<Rightarrow> int \<Rightarrow> (ident \<rightharpoonup> int) option)
     \<Rightarrow> string \<Rightarrow> string \<Rightarrow> battle list \<Rightarrow> real list list \<Rightarrow> int \<Rightarrow> error + sw_router" where
  "fit_and_relabel compute_elo_mle_with_tie compute_tiers strong_model' weak_model' df emb num_tiers =
     (case compute_elo_mle_with_tie df None of
        None \<Rightarrow> Inl (External ''compute_elo_mle_with_tie'')
      | Some model_ratings \<Rightarrow>
     (case compute_tiers model_ratings num_tiers of
        None \<Rightarrow> Inl (External ''compute_tiers'')
      | Some m2t \<Rightarrow>
     (case apply_col (tier_of m2t) (map model_a df) of
        Inl e \<Rightarrow> Inl e
      | Inr col_a \<Rightarrow>
          let df1 = map2 (\<lambda>row v. row\<lparr>model_a := v\<rparr>) df col_a in
     (case apply_col (tier_of m2t) (map model_b df1) of
        Inl e \<Rightarrow> Inl e
      | Inr col_b \<Rightarrow>
          Inr \<lparr>strong_model = strong_model', weak_model = weak_model',
               arena_df = map2 (\<lambda>row v. row\<lparr>model_b := v\<rparr>) df1 col_b,
               arena_conv_embedding = emb,
               embedding_model = ''text-embedding-3-small'',
               model2tier = m2t\<rparr>))))"

text \<open>
  \<^verbatim>\<open>
  try:
      if arena_df_path.endswith(".json"):
          self.arena_df = pd.read_json(arena_df_path)
      else:
          self.arena_df = pd.read_json(arena_df_path, lines=True)
  except FileNotFoundError:
      raise FileNotFoundError(f"Expected data file not found at path: {arena_df_path}")
  try:
      self.arena_conv_embedding = np.load(arena_embedding_path)
  except FileNotFoundError:
      raise FileNotFoundError(f"Expected data file not found at path: {arena_embedding_path}")
  \<close>
  The result is the exception or the constructed object, and the log of the calls of the
  loaders.
\<close>

definition SWRankingRouter_init ::
  "(path \<Rightarrow> bool) \<Rightarrow> (bool \<Rightarrow> string \<Rightarrow> battle list option)
     \<Rightarrow> (string \<Rightarrow> real list list option)
     \<Rightarrow> (battle list \<Rightarrow> npfloat list option \<Rightarrow> (ident \<rightharpoonup> real) option)
     \<Rightarrow> ((ident \<rightharpoonup> real) \<Rightarrow> int \<Rightarrow> (ident \<rightharpoonup> int) option)
     \<Rightarrow> filesystem \<Rightarrow> string \<Rightarrow> string \<Rightarrow> path \<Rightarrow> path \<Rightarrow> int
     \<Rightarrow> (error + sw_router) \<times> io_event list" where
  "SWRankingRouter_init takes_for_path parse_json parse_npy compute_elo_mle_with_tie
       compute_tiers fs strong_model' weak_model' arena_df_path arena_embedding_path num_tiers =
     (let lines = (if endswith arena_df_path ''.json'' then False else True);
          log1 = [ReadJson arena_df_path lines]
      in case pd_read_json takes_for_path parse_json fs arena_df_path lines of
        Inl (FileNotFoundError _) \<Rightarrow>
          (Inl (FileNotFoundError (''Expected data file not found at path: '' @ arena_df_path)), log1)
      | Inl e \<Rightarrow> (Inl e, log1)
      | Inr df \<Rightarrow>
          let log2 = log1 @ [NpLoad arena_embedding_path]
          in case np_load parse_npy fs arena_embedding_path of
            Inl (FileNotFoundError _) \<Rightarrow>
              (Inl (FileNotFoundError
                 (''Expected data file not found at path: '' @ arena_embedding_path)), log2)
          | Inl e \<Rightarrow> (Inl e, log2)
          | Inr emb \<Rightarrow>
              (fit_and_relabel compute_elo_mle_with_tie compute_tiers
                 strong_model' weak_model' df emb num_tiers, log2))"

subsection \<open>get_weightings\<close>

text \<open>
  \<^verbatim>\<open>
  def get_weightings(self, similarities):
      max_sim = np.max(similarities)
      return 10 * 10 ** (similarities / max_sim)
  \<close>
\<close>

definition get_weightings :: "npfloat list \<Rightarrow> error + npfloat list" where
  "get_weightings similarities =
     (case np_max similarities of
        Inl e \<Rightarrow> Inl e
      | Inr max_sim \<Rightarrow> Inr (map (\<lambda>s. times10 (pow10 (np_divide s max_sim))) similarities))"

subsection \<open>calculate_strong_win_rate\<close>

text \<open>
  \<^verbatim>\<open>np.dot(A, v)\<close> of a matrix and a vector raises when a row of \<open>A\<close> and \<open>v\<close> differ in
  length; \<^verbatim>\<open>np.linalg.norm\<close> is the Euclidean norm.
\<close>

definition np_dot :: "real list list \<Rightarrow> real list \<Rightarrow> error + real list" where
  "np_dot A v =
     (if list_all (\<lambda>row. length row = length v) A
      then Inr (map (\<lambda>row. \<Sum>(a, b)\<leftarrow>zip row v. a * b) A)
      else Inl (ValueError ''shapes not aligned''))"

definition linalg_norm :: "real list \<Rightarrow> real" where
  "linalg_norm v = sqrt (\<Sum>a\<leftarrow>v. a * a)"

text \<open>
  \<^verbatim>\<open>
  prompt_emb = (sw_utils.OPENAI_CLIENT.embeddings.create(
                    input=[prompt], model=self.embedding_model)).data[0].embedding
  similarities = np.dot(self.arena_conv_embedding, prompt_emb) / (
      np.linalg.norm(self.arena_conv_embedding, axis=1) * np.linalg.norm(prompt_emb))
  weightings = self.get_weightings(similarities)
  res = sw_utils.compute_elo_mle_with_tie(self.arena_df, sample_weight=weightings)
  weak_score, strong_score = (
      res[self.model2tier[self.weak_model]],
      res[self.model2tier[self.strong_model]])
  weak_winrate = 1 / (1 + 10 ** ((strong_score - weak_score) / 400))
  strong_winrate = 1 - weak_winrate
  return strong_winrate
  \<close>
  The embedding provider is the parameter \<open>embeddings_create\<close>: from the inputs, the model
  name and the state of the world to the embeddings of the response (\<open>None\<close> when the
  request fails) and the new state. The object \<open>self\<close> is returned next to the result.
\<close>

definition SWRankingRouter_calculate_strong_win_rate ::
  "(prompt list \<Rightarrow> string \<Rightarrow> 'w \<Rightarrow> real list list option \<times> 'w)
     \<Rightarrow> (battle list \<Rightarrow> npfloat list option \<Rightarrow> (ident \<rightharpoonup> real) option)
     \<Rightarrow> sw_router \<Rightarrow> prompt \<Rightarrow> 'w \<Rightarrow> (error + real) \<times> sw_router \<times> 'w" where
  "SWRankingRouter_calculate_strong_win_rate embeddings_create compute_elo_mle_with_tie
       self prompt w =
     (case embeddings_create [prompt] (embedding_model self) w of
        (None, w') \<Rightarrow> (Inl (External ''embeddings.create''), self, w')
      | (Some data, w') \<Rightarrow>
     (case data of
        [] \<Rightarrow> (Inl IndexError, self, w')
      | prompt_emb # _ \<Rightarrow>
     (case np_dot (arena_conv_embedding self) prompt_emb of
        Inl e \<Rightarrow> (Inl e, self, w')
      | Inr dots \<Rightarrow>
          let similarities =
                map2 true_divide dots
                  (map (\<lambda>row. linalg_norm row * linalg_norm prompt_emb)
                     (arena_conv_embedding self))
          in
     (case get_weightings similarities of
        Inl e \<Rightarrow> (Inl e, self, w')
      | Inr weightings \<Rightarrow>
     (case compute_elo_mle_with_tie (arena_df self) (Some weightings) of
        None \<Rightarrow> (Inl (External ''compute_elo_mle_with_tie''), self, w')
      | Some res \<Rightarrow>
     (case getitem (model2tier self) (ModelName (weak_model self)) of
        Inl e \<Rightarrow> (Inl e, self, w')
      | Inr weak_tier \<Rightarrow>
     (case getitem res (TierId weak_tier) of
        Inl e \<Rightarrow> (Inl e, self, w')
      | Inr weak_score \<Rightarrow>
     (case getitem (model2tier self) (ModelName (strong_model self)) of
        Inl e \<Rightarrow> (Inl e, self, w')
      | Inr strong_tier \<Rightarrow>
     (case getitem res (TierId strong_tier) of
        Inl e \<Rightarrow> (Inl e, self, w')
      | Inr strong_score \<Rightarrow>
          let weak_winrate = 1 / (1 + 10 powr ((strong_score - weak_score) / 400));
              strong_winrate = 1 - weak_winrate
          in (Inr strong_winrate, self, w'))))))))))"

text \<open>A sequence of calls on the same object, one prompt after the other.\<close>

fun calls ::
  "(prompt list \<Rightarrow> string \<Rightarrow> 'w \<Rightarrow> real list list option \<times> 'w)
     \<Rightarrow> (battle list \<Rightarrow> npfloat list option \<Rightarrow> (ident \<rightharpoonup> real) option)
     \<Rightarrow> sw_router \<Rightarrow> prompt list \<Rightarrow> 'w \<Rightarrow> (error + real) list \<times> sw_router \<times> 'w" where
  "calls embeddings_create fit self [] w = ([], self, w)"
| "calls embeddings_create fit self (p # ps) w =
     (case SWRankingRouter_calculate_strong_win_rate embeddings_create fit self p w of
        (r, self', w') \<Rightarrow>
          (case calls embeddings_create fit self' ps w' of
             (rs, self'', w'') \<Rightarrow> (r # rs, self'', w'')))"

section \<open>Example inputs\<close>

text \<open>
  Concrete collaborators and files, used where a theorem is applied to an input: a
  dataset of one battle, an embedding matrix of one row, a rating fit that returns fixed
  ratings for the models and for the tiers, and a parser that rejects its input.
\<close>

definition example_df :: "battle list" where
  "example_df =
     [\<lparr>model_a = ModelName ''gpt-4'', model_b = ModelName ''mixtral'', winner = ''model_a''\<rparr>]"

definition example_parse_json :: "bool \<Rightarrow> string \<Rightarrow> battle list option" where
  "example_parse_json lines content = Some example_df"


text \<open>The two ways in which pandas takes a string that names no file.\<close>

definition example_path_always :: "path \<Rightarrow> bool" where
  "example_path_always p = True"


definition example_parse_npy :: "string \<Rightarrow> real list list option" where
  "example_parse_npy content = Some [[1]]"

definition example_fit :: "battle list \<Rightarrow> npfloat list option \<Rightarrow> (ident \<rightharpoonup> real) option" where
  "example_fit df sample_weight =
     Some (map_of [(ModelName ''gpt-4'', 1400), (ModelName ''mixtral'', 1000),
                   (TierId 0, 1400), (TierId 1, 1000)])"

definition example_tiers :: "(ident \<rightharpoonup> real) \<Rightarrow> int \<Rightarrow> (ident \<rightharpoonup> int) option" where
  "example_tiers ratings num_tiers =
     Some (map_of [(ModelName ''gpt-4'', 0), (ModelName ''mixtral'', 1)])"

definition example_fs :: filesystem where
  "example_fs = map_of [(''d.json'', ''[]''), (''e.npy'', ''NUMPY'')]"

definition example_router :: sw_router where
  "example_router =
     \<lparr>strong_model = ''gpt-4'', weak_model = ''mixtral'',
      arena_df = [\<lparr>model_a = TierId 0, model_b = TierId 1, winner = ''model_a''\<rparr>],
      arena_conv_embedding = [[1]],
      embedding_model = ''text-embedding-3-small'',
      model2tier = map_of [(ModelName ''gpt-4'', 0), (ModelName ''mixtral'', 1)]\<rparr>"

text \<open>An embedding provider that answers every request with the vector \<open>[1]\<close> and counts them.\<close>

definition example_embed :: "prompt list \<Rightarrow> string \<Rightarrow> nat \<Rightarrow> real list list option \<times> nat" where
  "example_embed inputs name w = (Some [[1]], Suc w)"

section \<open>Theorems\<close>

subsection \<open>Router.route\<close>

text \<open>
  C1. For every prompt and threshold, \<open>route\<close> invokes the estimator exactly once (the
  invocation counter goes up by one, and the state left behind is the one that a single
  call of the estimator on that prompt leaves); when the estimator returns the win-rate
  \<open>rate\<close>, \<open>route\<close> returns the strong identifier if \<open>rate \<ge> threshold\<close> (the boundary
  included) and the weak identifier otherwise, so that, the two identifiers being
  different, it returns the strong one if and only if \<open>rate \<ge> threshold\<close>; an exception
  of the estimator is passed on.
\<close>

theorem route_threshold_once:
  fixes est :: "prompt \<Rightarrow> 'w \<Rightarrow> (error + real) \<times> 'w"
  shows "snd (route P (counted est) p t (w, n)) = (snd (est p w), Suc n)
    \<and> fst (route P (counted est) p t (w, n))
        = (case fst (est p w) of
             Inl e \<Rightarrow> Inl e
           | Inr rate \<Rightarrow> Inr (if t \<le> rate then strong P else weak P))
    \<and> (strong P \<noteq> weak P \<longrightarrow>
          (fst (route P (counted est) p t (w, n)) = Inr (strong P))
            = (\<exists>rate. fst (est p w) = Inr rate \<and> t \<le> rate))"
  by (cases "est p w") (auto simp: route_def counted_def split: sum.splits)

theorem route_threshold_once_witness:
  "snd (route \<lparr>strong = ''gpt-4'', weak = ''mixtral''\<rparr>
          (counted (\<lambda>p w. (Inr (1 / 2), p # w))) ''hi'' (1 / 2) ([], 0))
     = ([''hi''], 1)
   \<and> fst (route \<lparr>strong = ''gpt-4'', weak = ''mixtral''\<rparr>
          (counted (\<lambda>p w. (Inr (1 / 2), p # w))) ''hi'' (1 / 2) ([], 0))
     = Inr ''gpt-4''"
  using route_threshold_once [of "\<lparr>strong = ''gpt-4'', weak = ''mixtral''\<rparr>"
      "\<lambda>p w. (Inr (1 / 2), p # w)" "''hi''" "1 / 2" "[]" 0]
  by simp

subsection \<open>Parallel-safety flags\<close>

text \<open>
  C5, as stated, fails: the classes of the classifier estimators and of the
  matrix-factorization estimator are decorated with \<^verbatim>\<open>no_parallel\<close>, so their flag is
  true.
\<close>

theorem NO_PARALLEL_classifiers_counterexample:
  "NO_PARALLEL BERTRouter \<and> NO_PARALLEL CausalLLMRouter \<and> NO_PARALLEL MatrixFactorizationRouter"
  by (simp add: BERTRouter_def CausalLLMRouter_def MatrixFactorizationRouter_def
        no_parallel_def)

text \<open>
  C5, amended. The flag is an attribute of the class. It is true for the random
  baseline, the two classifier estimators (\<open>causal_llm\<close>, \<open>bert\<close>) and the
  matrix-factorization estimator, all four decorated with \<^verbatim>\<open>no_parallel\<close>, and false
  for the SW ranking estimator alone, which inherits the flag of \<^verbatim>\<open>Router\<close>.
\<close>

theorem NO_PARALLEL_by_class:
  "map (\<lambda>(name, cls). (name, NO_PARALLEL cls)) ROUTER_CLS =
     [(''random'', True), (''matrix_factorization'', True), (''causal_llm'', True),
      (''bert'', True), (''sw_ranking'', False)]"
  by (simp add: ROUTER_CLS_def RandomRouter_def MatrixFactorizationRouter_def
        CausalLLMRouter_def BERTRouter_def SWRankingRouter_def Router_def
        no_parallel_def inherit_def)

subsection \<open>get_weightings\<close>




lemma two_power_bounds:
  fixes n :: nat
  shows "0 < 1 / (2::real) ^ n"
    and "7 \<le> n \<Longrightarrow> 1 / (2::real) ^ n < 1 / 100"
    and "10 \<le> n \<Longrightarrow> (1000::real) < 2 ^ n"
proof -
  show "0 < 1 / (2::real) ^ n" by simp
  show "1 / (2::real) ^ n < 1 / 100" if "7 \<le> n"
  proof -
    have "(100::real) < 2 ^ 7" by simp
    also have "\<dots> \<le> 2 ^ n" using that by (intro power_increasing) simp_all
    finally show ?thesis by (simp add: field_simps)
  qed
  show "(1000::real) < 2 ^ n" if "10 \<le> n"
  proof -
    have "(1000::real) < 2 ^ 10" by simp
    also have "\<dots> \<le> 2 ^ n" using that by (intro power_increasing) simp_all
    finally show ?thesis .
  qed
qed



lemma underflow_bound_pos: "0 < underflow_bound"
  unfolding underflow_bound_def by (rule two_power_bounds)

lemma underflow_bound_small: "underflow_bound < 1 / 100"
  unfolding underflow_bound_def by (rule two_power_bounds) simp

lemma overflow_bound_large: "1000 < overflow_bound"
  unfolding overflow_bound_def by (rule two_power_bounds) simp





lemma float_of_real_simps:
  "float_of_real 0 = Fin 0" "float_of_real 1 = Fin 1" "float_of_real 10 = Fin 10"
  "float_of_real 100 = Fin 100"
  using underflow_bound_pos underflow_bound_small overflow_bound_large
  by (simp_all add: float_of_real_def signed_zero_def)



















subsection \<open>BERTRouter\<close>

text \<open>Subtracting the maximum (or any other number) from the logits does not change the softmax.\<close>

lemma shifted_softmax:
  fixes logits :: "real list"
  shows "map (\<lambda>e. e / sum_list (map (\<lambda>l. exp (l - m)) logits)) (map (\<lambda>l. exp (l - m)) logits)
         = softmax logits"
proof -
  have s: "sum_list (map (\<lambda>l. exp l / exp m) logits) = (\<Sum>y\<leftarrow>logits. exp y) / exp m"
    by (induction logits) (simp_all add: add_divide_distrib)
  show ?thesis
    by (simp add: softmax_def s exp_diff comp_def)
qed

lemma BERT_result:
  "BERTRouter_calculate_strong_win_rate tokenizer model p w =
     (case model (tokenizer p) w of
        (None, w') \<Rightarrow> (Inl (External ''model''), w')
      | (Some logits, w') \<Rightarrow>
          if logits = []
          then (Inl (ValueError ''zero-size array to reduction operation maximum which has no identity''), w')
          else (Inr (1 - sum_list (drop (length logits - 2) (softmax logits))), w'))"
  unfolding BERTRouter_calculate_strong_win_rate_def Let_def shifted_softmax
  by (simp add: softmax_def split: prod.splits option.splits)

text \<open>
  C7. On every prompt the estimator invokes the classifier exactly once: the invocation
  counter goes up by one and the state left behind is that of one call on the tokenized
  prompt, whether the classifier returns or raises. When the classifier returns three
  logits, for the classes 0 (strong model wins), 1 (tie) and 2 (weak model wins), the
  estimator returns one minus the sum of the softmax probabilities of the classes 1 and 2,
  the two lowest in preference for the strong model.
\<close>

theorem BERTRouter_three_class:
  fixes model :: "'tok \<Rightarrow> 'w \<Rightarrow> real list option \<times> 'w"
  shows "snd (BERTRouter_calculate_strong_win_rate tokenizer (counted model) p (w, n))
           = (snd (model (tokenizer p) w), Suc n)
      \<and> (fst (model (tokenizer p) w) = Some [l0, l1, l2] \<longrightarrow>
           fst (BERTRouter_calculate_strong_win_rate tokenizer (counted model) p (w, n))
             = Inr (1 - (softmax [l0, l1, l2] ! 1 + softmax [l0, l1, l2] ! 2)))"
  by (cases "model (tokenizer p) w")
     (auto simp: BERT_result counted_def softmax_def split: option.splits)

theorem BERTRouter_three_class_witness:
  "snd (BERTRouter_calculate_strong_win_rate (\<lambda>p. p) (counted (\<lambda>t w. (Some [0, 0, 0], t # w)))
          ''hi'' ([], 0))
     = ([''hi''], 1)
   \<and> fst (BERTRouter_calculate_strong_win_rate (\<lambda>p. p) (counted (\<lambda>t w. (Some [0, 0, 0], t # w)))
          ''hi'' ([], 0))
     = Inr (1 / 3)"
  using BERTRouter_three_class [of "\<lambda>p. p" "\<lambda>t w. (Some [0, 0, 0], t # w)" "''hi''" "[]" 0 0 0 0]
  by (simp add: softmax_def)

subsection \<open>RandomRouter\<close>

lemma random_bits_unit:
  fixes k :: "53 word"
  shows "0 \<le> real (unat k) / 2 ^ 53 \<and> real (unat k) / 2 ^ 53 \<le> 1"
proof -
  define r where "r = real (unat k)"
  have "unat k < 2 ^ 53" using unsigned_less [of k, where ?'a = nat] by simp
  hence "real (unat k) < real (2 ^ 53)" by (simp only: of_nat_less_iff)
  hence "r < 2 ^ 53" unfolding r_def by simp
  moreover have "0 \<le> r" unfolding r_def by (rule of_nat_0_le_iff)
  ultimately have "0 \<le> r / 2 ^ 53 \<and> r / 2 ^ 53 \<le> 1" by simp
  thus ?thesis unfolding r_def .
qed

text \<open>
  C9. From the same state of the random-number generator, the estimator returns the same
  value, and leaves the same state, for any two prompts; the value lies in \<open>[0, 1]\<close>.
\<close>

theorem RandomRouter_prompt_independent:
  "RandomRouter_calculate_strong_win_rate random p1 g
     = RandomRouter_calculate_strong_win_rate random p2 g
   \<and> (\<exists>x. fst (RandomRouter_calculate_strong_win_rate random p1 g) = Inr x \<and> 0 \<le> x \<and> x \<le> 1)"
proof -
  obtain k g' where r: "random g = (k, g')" by (cases "random g")
  have e: "fst (RandomRouter_calculate_strong_win_rate random p1 g)
             = Inr (real (unat k) / 2 ^ 53)"
    by (simp add: RandomRouter_calculate_strong_win_rate_def random_uniform_def r)
  have "RandomRouter_calculate_strong_win_rate random p1 g
          = RandomRouter_calculate_strong_win_rate random p2 g"
    by (simp add: RandomRouter_calculate_strong_win_rate_def)
  with e random_bits_unit [of k] show ?thesis by blast
qed

theorem RandomRouter_prompt_independent_witness:
  "RandomRouter_calculate_strong_win_rate (\<lambda>g. (word_of_nat g, Suc g)) ''short'' 7
     = RandomRouter_calculate_strong_win_rate (\<lambda>g. (word_of_nat g, Suc g)) ''a longer prompt'' 7
   \<and> (\<exists>x. fst (RandomRouter_calculate_strong_win_rate (\<lambda>g. (word_of_nat g, Suc g)) ''short'' 7)
            = Inr x \<and> 0 \<le> x \<and> x \<le> 1)"
  by (rule RandomRouter_prompt_independent)

subsection \<open>SWRankingRouter: the estimate\<close>

lemma SW_calc_frame:
  "snd (SWRankingRouter_calculate_strong_win_rate embeddings_create fit self p w)
     = (self, snd (embeddings_create [p] (embedding_model self) w))"
  unfolding SWRankingRouter_calculate_strong_win_rate_def Let_def
  by (simp split: prod.splits option.splits list.splits sum.splits)

lemma calls_frame: "fst (snd (calls embeddings_create fit self ps w)) = self"
proof (induction ps arbitrary: w)
  case Nil
  show ?case by simp
next
  case (Cons p ps)
  obtain r self' w' where
    c: "SWRankingRouter_calculate_strong_win_rate embeddings_create fit self p w = (r, self', w')"
    by (cases "SWRankingRouter_calculate_strong_win_rate embeddings_create fit self p w") auto
  with SW_calc_frame [of embeddings_create fit self p w] have "self' = self" by simp
  with c Cons [of w'] show ?case by (auto split: prod.splits)
qed

text \<open>
  C4. The SW estimator returns a value exactly when the embedding provider answers, the
  similarities and their weights are computed, the rating fit over the stored dataset with
  these weights returns, and the tiers of the weak and of the strong model are found in
  the tier mapping and in the fitted ratings; the value is then \<open>1 - weakWinRate\<close> with
  \<open>weakWinRate = 1 / (1 + 10 ^ ((strongRating - weakRating) / 400))\<close>, the two ratings read
  from the re-fitted ratings at those tiers.
\<close>

theorem SWRankingRouter_elo_formula:
  "(fst (SWRankingRouter_calculate_strong_win_rate embeddings_create fit self p w) = Inr v)
   = (\<exists>prompt_emb rest dots weightings res weak_tier strong_tier weakRating strongRating.
        fst (embeddings_create [p] (embedding_model self) w) = Some (prompt_emb # rest)
      \<and> np_dot (arena_conv_embedding self) prompt_emb = Inr dots
      \<and> get_weightings
            (map2 true_divide dots
               (map (\<lambda>row. linalg_norm row * linalg_norm prompt_emb)
                  (arena_conv_embedding self)))
          = Inr weightings
      \<and> fit (arena_df self) (Some weightings) = Some res
      \<and> model2tier self (ModelName (weak_model self)) = Some weak_tier
      \<and> model2tier self (ModelName (strong_model self)) = Some strong_tier
      \<and> res (TierId weak_tier) = Some weakRating
      \<and> res (TierId strong_tier) = Some strongRating
      \<and> v = 1 - 1 / (1 + 10 powr ((strongRating - weakRating) / 400)))"
  unfolding SWRankingRouter_calculate_strong_win_rate_def Let_def getitem_def
  by (auto split: prod.splits option.splits list.splits sum.splits)

theorem SWRankingRouter_elo_formula_witness:
  "fst (SWRankingRouter_calculate_strong_win_rate example_embed example_fit example_router
          ''hi'' 0) = Inr (1 - 1 / (1 + 10 powr ((1400 - 1000) / 400)))"
proof -
  have "fst (example_embed [''hi''] (embedding_model example_router) 0) = Some ([1] # [])
      \<and> np_dot (arena_conv_embedding example_router) [1] = Inr [1]
      \<and> get_weightings
            (map2 true_divide [1]
               (map (\<lambda>row. linalg_norm row * linalg_norm [1])
                  (arena_conv_embedding example_router)))
          = Inr [Fin 100]
      \<and> example_fit (arena_df example_router) (Some [Fin 100])
          = Some (map_of [(ModelName ''gpt-4'', 1400), (ModelName ''mixtral'', 1000),
                          (TierId 0, 1400), (TierId 1, 1000)])
      \<and> model2tier example_router (ModelName (weak_model example_router)) = Some 1
      \<and> model2tier example_router (ModelName (strong_model example_router)) = Some 0
      \<and> map_of [(ModelName ''gpt-4'', 1400 :: real), (ModelName ''mixtral'', 1000),
                 (TierId 0, 1400), (TierId 1, 1000)] (TierId 1) = Some 1000
      \<and> map_of [(ModelName ''gpt-4'', 1400 :: real), (ModelName ''mixtral'', 1000),
                 (TierId 0, 1400), (TierId 1, 1000)] (TierId 0) = Some 1400"
    by (simp add: example_embed_def example_fit_def example_router_def np_dot_def
          linalg_norm_def true_divide_def np_divide_def get_weightings_def np_max_def
          float_of_real_simps)
  thus ?thesis
    unfolding SWRankingRouter_elo_formula by blast
qed

subsection \<open>SWRankingRouter: construction\<close>

lemma apply_col_Inr:
  "apply_col f xs = Inr ys \<Longrightarrow> list_all2 (\<lambda>x y. f x = Inr y) xs ys"
  by (induction xs arbitrary: ys) (auto split: sum.splits)

lemma tier_of_Inr: "(tier_of m x = Inr y) = (\<exists>t. m x = Some t \<and> y = TierId t)"
  by (auto simp: tier_of_def getitem_def split: option.splits)



lemma fit_and_relabel_Inr:
  assumes "fit_and_relabel fit tiers sm wm df emb nt = Inr r"
  shows "list_all2 (\<lambda>row row'. \<exists>ta tb.
            model2tier r (model_a row) = Some ta \<and> model2tier r (model_b row) = Some tb
          \<and> row' = row\<lparr>model_a := TierId ta, model_b := TierId tb\<rparr>) df (arena_df r)
       \<and> arena_conv_embedding r = emb"
proof -
  from assms obtain m2t col_a col_b where
        a: "apply_col (tier_of m2t) (map model_a df) = Inr col_a"
    and b: "apply_col (tier_of m2t)
              (map model_b (map2 (\<lambda>row v. row\<lparr>model_a := v\<rparr>) df col_a)) = Inr col_b"
    and r: "arena_df r = map2 (\<lambda>row v. row\<lparr>model_b := v\<rparr>)
                           (map2 (\<lambda>row v. row\<lparr>model_a := v\<rparr>) df col_a) col_b"
           "model2tier r = m2t" "arena_conv_embedding r = emb"
    unfolding fit_and_relabel_def Let_def
    by (auto split: option.splits sum.splits)
  from apply_col_Inr [OF a] have la: "length col_a = length df"
    and na: "\<And>i. i < length df \<Longrightarrow> tier_of m2t (model_a (df ! i)) = Inr (col_a ! i)"
    by (auto simp: list_all2_conv_all_nth)
  from apply_col_Inr [OF b] la have lb: "length col_b = length df"
    and nb: "\<And>i. i < length df \<Longrightarrow> tier_of m2t (model_b (df ! i)) = Inr (col_b ! i)"
    by (auto simp: list_all2_conv_all_nth)
  have "list_all2 (\<lambda>row row'. \<exists>ta tb.
            model2tier r (model_a row) = Some ta \<and> model2tier r (model_b row) = Some tb
          \<and> row' = row\<lparr>model_a := TierId ta, model_b := TierId tb\<rparr>) df (arena_df r)"
    unfolding list_all2_conv_all_nth
  proof (intro conjI allI impI)
    show "length df = length (arena_df r)" using la lb by (simp add: r)
  next
    fix i
    assume i: "i < length df"
    from na [OF i] nb [OF i] obtain ta tb where
      "m2t (model_a (df ! i)) = Some ta" "col_a ! i = TierId ta"
      "m2t (model_b (df ! i)) = Some tb" "col_b ! i = TierId tb"
      by (auto simp: tier_of_Inr)
    thus "\<exists>ta tb. model2tier r (model_a (df ! i)) = Some ta
            \<and> model2tier r (model_b (df ! i)) = Some tb
            \<and> arena_df r ! i = (df ! i)\<lparr>model_a := TierId ta, model_b := TierId tb\<rparr>"
      using i la lb by (simp add: r)
  qed
  with r show ?thesis by simp
qed



text \<open>The constructor, by what the loaders return.\<close>

lemma init_cases:
  "SWRankingRouter_init takes_for_path parse_json parse_npy fit tiers fs sm wm dp ep nt =
    (let lines = \<not> endswith dp ''.json'' in
     case pd_read_json takes_for_path parse_json fs dp lines of
       Inl e \<Rightarrow>
         (if fs dp = None \<and> takes_for_path dp
          then Inl (FileNotFoundError (''Expected data file not found at path: '' @ dp))
          else Inl e,
          [ReadJson dp lines])
     | Inr df \<Rightarrow>
        (case np_load parse_npy fs ep of
           Inl e \<Rightarrow>
             (if fs ep = None
              then Inl (FileNotFoundError (''Expected data file not found at path: '' @ ep))
              else Inl e,
              [ReadJson dp lines, NpLoad ep])
         | Inr emb \<Rightarrow>
             (fit_and_relabel fit tiers sm wm df emb nt, [ReadJson dp lines, NpLoad ep])))"
  unfolding SWRankingRouter_init_def pd_read_json_def np_load_def Let_def
  by (simp split: option.splits)




subsection \<open>SWRankingRouter: the stored dataset\<close>

text \<open>
  C8. The constructor relabels the dataset once: the dataset stored in the constructed
  object is the loaded one with the cells of \<^verbatim>\<open>model_a\<close> and \<^verbatim>\<open>model_b\<close> of every row
  replaced by their tiers under the stored tier mapping. A call of
  \<open>calculate_strong_win_rate\<close> returns the object as it received it and changes nothing but
  the state of the embedding provider, whether it returns a value or passes on the error
  of the provider; so after any sequence of calls the stored dataset, the embedding matrix
  and the tier mapping are the ones of the construction. The rating fit is a function of
  the rows it is given.
\<close>

theorem SWRankingRouter_dataset_frozen:
  "(\<forall>r log. SWRankingRouter_init takes_for_path parse_json parse_npy fit0 tiers fs sm wm
                dp ep nt = (Inr r, log)
       \<longrightarrow> (\<exists>df. pd_read_json takes_for_path parse_json fs dp (\<not> endswith dp ''.json'')
                    = Inr df
              \<and> (\<forall>content. fs dp = Some content \<longrightarrow>
                     parse_json (\<not> endswith dp ''.json'') content = Some df)
              \<and> list_all2 (\<lambda>row row'. \<exists>ta tb.
                     model2tier r (model_a row) = Some ta
                   \<and> model2tier r (model_b row) = Some tb
                   \<and> row' = row\<lparr>model_a := TierId ta, model_b := TierId tb\<rparr>)
                  df (arena_df r)))
   \<and> snd (SWRankingRouter_calculate_strong_win_rate embeddings_create fit self p w)
       = (self, snd (embeddings_create [p] (embedding_model self) w))
   \<and> (fst (embeddings_create [p] (embedding_model self) w) = None \<longrightarrow>
        fst (SWRankingRouter_calculate_strong_win_rate embeddings_create fit self p w)
          = Inl (External ''embeddings.create''))
   \<and> fst (snd (calls embeddings_create fit self ps w)) = self
   \<and> arena_df (fst (snd (calls embeddings_create fit self ps w))) = arena_df self
   \<and> arena_conv_embedding (fst (snd (calls embeddings_create fit self ps w)))
       = arena_conv_embedding self
   \<and> model2tier (fst (snd (calls embeddings_create fit self ps w))) = model2tier self"
proof -
  have A: "\<forall>r log. SWRankingRouter_init takes_for_path parse_json parse_npy fit0 tiers fs sm wm
                dp ep nt = (Inr r, log)
       \<longrightarrow> (\<exists>df. pd_read_json takes_for_path parse_json fs dp (\<not> endswith dp ''.json'')
                    = Inr df
              \<and> (\<forall>content. fs dp = Some content \<longrightarrow>
                     parse_json (\<not> endswith dp ''.json'') content = Some df)
              \<and> list_all2 (\<lambda>row row'. \<exists>ta tb.
                     model2tier r (model_a row) = Some ta
                   \<and> model2tier r (model_b row) = Some tb
                   \<and> row' = row\<lparr>model_a := TierId ta, model_b := TierId tb\<rparr>)
                  df (arena_df r))"
  proof (intro allI impI)
    fix r log
    assume a: "SWRankingRouter_init takes_for_path parse_json parse_npy fit0 tiers fs sm wm
                dp ep nt = (Inr r, log)"
    then obtain df emb where
      l: "pd_read_json takes_for_path parse_json fs dp (\<not> endswith dp ''.json'') = Inr df"
      and f: "fit_and_relabel fit0 tiers sm wm df emb nt = Inr r"
      unfolding init_cases Let_def by (auto split: sum.splits if_splits)
    from l have "\<forall>content. fs dp = Some content \<longrightarrow>
                     parse_json (\<not> endswith dp ''.json'') content = Some df"
      by (auto simp: pd_read_json_def split: option.splits)
    with l fit_and_relabel_Inr [OF f]
    show "\<exists>df. pd_read_json takes_for_path parse_json fs dp (\<not> endswith dp ''.json'')
                    = Inr df
              \<and> (\<forall>content. fs dp = Some content \<longrightarrow>
                     parse_json (\<not> endswith dp ''.json'') content = Some df)
              \<and> list_all2 (\<lambda>row row'. \<exists>ta tb.
                     model2tier r (model_a row) = Some ta
                   \<and> model2tier r (model_b row) = Some tb
                   \<and> row' = row\<lparr>model_a := TierId ta, model_b := TierId tb\<rparr>)
                  df (arena_df r)"
      by blast
  qed
  have B: "fst (embeddings_create [p] (embedding_model self) w) = None \<longrightarrow>
        fst (SWRankingRouter_calculate_strong_win_rate embeddings_create fit self p w)
          = Inl (External ''embeddings.create'')"
    unfolding SWRankingRouter_calculate_strong_win_rate_def
    by (auto split: prod.splits)
  from A B show ?thesis
    by (simp only: SW_calc_frame calls_frame simp_thms)
qed

theorem SWRankingRouter_dataset_frozen_witness:
  "SWRankingRouter_init example_path_always example_parse_json example_parse_npy example_fit
      example_tiers example_fs ''gpt-4'' ''mixtral'' ''d.json'' ''e.npy'' 10
     = (Inr example_router, [ReadJson ''d.json'' False, NpLoad ''e.npy''])
   \<and> (\<exists>df. pd_read_json example_path_always example_parse_json example_fs ''d.json''
                (\<not> endswith ''d.json'' ''.json'') = Inr df
          \<and> list_all2 (\<lambda>row row'. \<exists>ta tb.
                 model2tier example_router (model_a row) = Some ta
               \<and> model2tier example_router (model_b row) = Some tb
               \<and> row' = row\<lparr>model_a := TierId ta, model_b := TierId tb\<rparr>)
              df (arena_df example_router))
   \<and> fst (snd (calls example_embed example_fit example_router [''a'', ''b''] 0))
       = example_router"
proof -
  have e: "SWRankingRouter_init example_path_always example_parse_json example_parse_npy
      example_fit example_tiers example_fs ''gpt-4'' ''mixtral'' ''d.json'' ''e.npy'' 10
     = (Inr example_router, [ReadJson ''d.json'' False, NpLoad ''e.npy''])"
    by (simp add: init_cases pd_read_json_def np_load_def endswith_def example_fs_def
          example_parse_json_def
          example_parse_npy_def example_fit_def example_tiers_def example_df_def
          example_router_def fit_and_relabel_def tier_of_def getitem_def)
  note t = SWRankingRouter_dataset_frozen
         [where takes_for_path = example_path_always
            and parse_json = example_parse_json and parse_npy = example_parse_npy
            and ?fit0.0 = example_fit and tiers = example_tiers and fs = example_fs
            and sm = "''gpt-4''" and wm = "''mixtral''" and dp = "''d.json''"
            and ep = "''e.npy''" and nt = 10 and embeddings_create = example_embed
            and fit = example_fit and self = example_router and ps = "[''a'', ''b'']"
            and w = 0]
  from t e show ?thesis by blast
qed

end
